theory Spec2Isabelle
  imports Main "HOL-Library.Sublist"
begin

section \<open>The book build script \<^verbatim>\<open>build/build.py\<close>\<close>

text \<open>
  The script is a command-line wrapper around the Pandoc converter. Everything it does
  is an effect on the outside world: it reads the chapter manifest, tests paths for
  existence, creates and removes directories, starts subprocesses and prints. The
  embedding makes that world an explicit value that every function takes and returns:
  a filesystem and the chronological list of the effects performed so far. A Python
  exception is the \<open>Inl\<close> branch of a sum.
\<close>

subsection \<open>Paths and the filesystem\<close>

text \<open>
  A path is the list of the components of an absolute path, so that \<open>p @ [n]\<close> is
  \<^verbatim>\<open>p / n\<close> for a plain name \<open>n\<close> and \<open>butlast p\<close> is \<^verbatim>\<open>p.parent\<close>
  (the root is its own parent). A filesystem is an association list from paths to nodes,
  read with \<open>map_of\<close>; symbolic links and permissions are not modelled.
\<close>

type_synonym path = "string list"

datatype node = File string | Dir

type_synonym filesystem = "(path \<times> node) list"

definition lookup :: "filesystem \<Rightarrow> path \<Rightarrow> node option" where
  "lookup fsys p = map_of fsys p"

definition path_exists :: "filesystem \<Rightarrow> path \<Rightarrow> bool" where
  \<comment> \<open>\<^verbatim>\<open>Path.exists()\<close>: true for a directory and for a regular file alike.\<close>
  "path_exists fsys p = (lookup fsys p \<noteq> None)"

definition is_file :: "filesystem \<Rightarrow> path \<Rightarrow> bool" where
  "is_file fsys p = (case lookup fsys p of Some (File _) \<Rightarrow> True | _ \<Rightarrow> False)"

definition parent :: "path \<Rightarrow> path" where
  "parent p = butlast p"

definition ancestors :: "path \<Rightarrow> path list" where
  \<comment> \<open>The proper prefixes of a path, the root first.\<close>
  "ancestors p = map (\<lambda>n. take n p) [0..<length p]"

subsection \<open>Exceptions, printed lines, effects\<close>

datatype exn =
    FileNotFoundError
  | FileExistsError
  | NotADirectoryError
  | IsADirectoryError
  | CalledProcessError int
  | YAMLError
  | AttributeError
  | TypeError
  | OSError int                   \<comment> \<open>an \<^verbatim>\<open>OSError\<close> of another errno: 36 is ENAMETOOLONG, 13 is EACCES\<close>
  | SystemExit int

definition missing_error :: "filesystem \<Rightarrow> path \<Rightarrow> exn" where
  \<comment> \<open>What the operating system reports for a path that does not resolve: ENOTDIR when
      a component on the way is a regular file, ENOENT otherwise.\<close>
  "missing_error fsys p =
     (if list_ex (is_file fsys) (ancestors p) then NotADirectoryError else FileNotFoundError)"

text \<open>
  The lines the script prints, one constructor per \<^verbatim>\<open>print\<close> statement of the
  source. The elapsed wall-clock time and the rendering of the exception object that
  some lines interpolate are left out.
\<close>

datatype line =
    Rule_Line                     \<comment> \<open>\<^verbatim>\<open>"=" * 50\<close>\<close>
  | Title_Line                    \<comment> \<open>\<^verbatim>\<open>VizPsyche Book Build System\<close>\<close>
  | Warning_Chapter_Not_Found string
  | OK_Found_Version string       \<comment> \<open>\<^verbatim>\<open>[OK] Found {version}\<close>\<close>
  | ERROR_Pandoc_Not_Found
  | PDF_Building
  | OK_PDF_Generated path
  | ERROR_PDF_Build_Failed int
  | ERROR_Xelatex_Not_Found
  | HTML_Building
  | OK_HTML_Generated path
  | ERROR_HTML_Build_Failed int
  | EPUB_Building
  | OK_EPUB_Generated path
  | ERROR_EPUB_Build_Failed int
  | CLEAN_Cleaning
  | OK_Removed_Dist
  | OK_Dist_Already_Clean
  | OK_Found_Chapters nat
  | ERROR_No_Chapters_Found
  | Closing_Rule_Line             \<comment> \<open>\<^verbatim>\<open>"\n" + "=" * 50\<close>\<close>
  | OK_Build_Complete
  | Output_Line path
  | ERROR_Build_Completed_With_Errors

datatype event =
    Print line
  | Run "string list"             \<comment> \<open>a call of \<^verbatim>\<open>subprocess.run\<close> with this command\<close>
  | Open path                     \<comment> \<open>a call of \<^verbatim>\<open>open\<close> for reading\<close>
  | Mkdir path
  | Rmtree path
  | Copytree path path

record world =
  fs :: filesystem
  trace :: "event list"

definition log :: "event \<Rightarrow> world \<Rightarrow> world" where
  "log e w = w\<lparr>trace := trace w @ [e]\<rparr>"

definition print :: "line \<Rightarrow> world \<Rightarrow> world" where
  "print l w = log (Print l) w"

subsection \<open>YAML values and the Python operations applied to them\<close>

text \<open>
  What \<^verbatim>\<open>yaml.safe_load\<close> can return, as far as the script looks at it: the empty
  document is \<open>YNull\<close>, a mapping is the list of the items of the resulting
  \<^verbatim>\<open>dict\<close> (one pair per key). Floats, dates and binary values are not modelled.
\<close>

datatype yaml =
    YNull
  | YBool bool
  | YInt int
  | YStr string
  | YList "yaml list"
  | YMap "(yaml \<times> yaml) list"

fun dict_get :: "yaml \<Rightarrow> yaml \<Rightarrow> yaml \<Rightarrow> exn + yaml" where
  \<comment> \<open>\<^verbatim>\<open>obj.get(key, default)\<close>: only a \<^verbatim>\<open>dict\<close> has the method.\<close>
  "dict_get (YMap items) key dflt =
     Inr (case map_of items key of None \<Rightarrow> dflt | Some v \<Rightarrow> v)"
| "dict_get _ key dflt = Inl AttributeError"

fun py_num :: "yaml \<Rightarrow> int option" where
  "py_num (YInt i) = Some i"
| "py_num (YBool b) = Some (if b then 1 else 0)"
| "py_num _ = None"

fun py_add :: "yaml \<Rightarrow> yaml \<Rightarrow> exn + yaml" where
  \<comment> \<open>\<^verbatim>\<open>a + b\<close>: concatenation of two lists or two strings, the sum of two
      numbers, \<^verbatim>\<open>TypeError\<close> for every other pair.\<close>
  "py_add (YList a) (YList b) = Inr (YList (a @ b))"
| "py_add (YStr a) (YStr b) = Inr (YStr (a @ b))"
| "py_add a b =
     (case (py_num a, py_num b) of
        (Some m, Some n) \<Rightarrow> Inr (YInt (m + n))
      | _ \<Rightarrow> Inl TypeError)"

fun py_len :: "yaml \<Rightarrow> exn + nat" where
  "py_len (YList xs) = Inr (length xs)"
| "py_len (YStr s) = Inr (length s)"
| "py_len (YMap items) = Inr (length items)"
| "py_len _ = Inl TypeError"

fun py_iter :: "yaml \<Rightarrow> exn + yaml list" where
  \<comment> \<open>The items a \<^verbatim>\<open>for\<close> loop visits: the elements of a list, the characters
      of a string, the keys of a dict.\<close>
  "py_iter (YList xs) = Inr xs"
| "py_iter (YStr s) = Inr (map (\<lambda>c. YStr [c]) s)"
| "py_iter (YMap items) = Inr (map fst items)"
| "py_iter _ = Inl TypeError"

subsection \<open>The environment of a run\<close>

text \<open>
  What the script takes from outside itself: the directory of the script file, the YAML
  parser (\<open>None\<close> for a malformed document), pathlib's \<^verbatim>\<open>/\<close> applied to a chapter
  name from the manifest (which may be a nested, an absolute or a dotted name), and the
  programs that \<^verbatim>\<open>subprocess.run\<close> starts. A program maps the filesystem it finds
  to its exit status, its standard output and the filesystem it leaves.

  A name from the manifest may also be one that the operating system refuses to look
  at: a component longer than the filesystem holds (ENAMETOOLONG, from 256 characters
  on), a name below a directory the process may not search (EACCES). \<open>stat_error\<close>
  gives the error of such a path, \<open>None\<close> for a path that can be examined.
  \<^verbatim>\<open>Path.exists()\<close> answers \<^verbatim>\<open>False\<close> only for a path that is not there; every
  other error of the underlying \<^verbatim>\<open>stat\<close> it lets through. The script's own paths lie
  in the document root, from which the running script itself was read, and end in
  short fixed names: for them the test is the plain \<open>path_exists\<close>.
\<close>

datatype proc_result = Completed int string | Not_Found

record env =
  BUILD_DIR :: path
  safe_load :: "string \<Rightarrow> yaml option"
  join_name :: "path \<Rightarrow> string \<Rightarrow> path"
  stat_error :: "path \<Rightarrow> exn option"
  program :: "string list \<Rightarrow> filesystem \<Rightarrow> proc_result \<times> filesystem"

definition DOCS_DIR :: "env \<Rightarrow> path" where
  "DOCS_DIR E = parent (BUILD_DIR E)"

definition DIST_DIR :: "env \<Rightarrow> path" where
  "DIST_DIR E = DOCS_DIR E @ [''dist'']"

definition TEMPLATES_DIR :: "env \<Rightarrow> path" where
  "TEMPLATES_DIR E = BUILD_DIR E @ [''templates'']"

definition CHAPTERS_FILE :: "env \<Rightarrow> path" where
  "CHAPTERS_FILE E = BUILD_DIR E @ [''chapters.yaml'']"

definition METADATA_FILE :: "env \<Rightarrow> path" where
  "METADATA_FILE E = BUILD_DIR E @ [''metadata.yaml'']"

definition EISVOGEL_TEMPLATE :: "env \<Rightarrow> path" where
  "EISVOGEL_TEMPLATE E =
     TEMPLATES_DIR E @ [''pandoc-latex-template'', ''template-multi-file'', ''eisvogel.latex'']"

definition STYLE_CSS :: "env \<Rightarrow> path" where
  "STYLE_CSS E = TEMPLATES_DIR E @ [''style.css'']"

definition path_str :: "path \<Rightarrow> string" where
  \<comment> \<open>\<^verbatim>\<open>str(p)\<close> of an absolute POSIX path.\<close>
  "path_str p = (if p = [] then ''/'' else concat (map (\<lambda>c. ''/'' @ c) p))"

subsection \<open>Sequencing, \<^verbatim>\<open>raise\<close> and \<^verbatim>\<open>try\<close>/\<^verbatim>\<open>except\<close>\<close>

type_synonym 'a action = "world \<Rightarrow> (exn + 'a) \<times> world"

definition ret :: "'a \<Rightarrow> 'a action" where
  "ret x w = (Inr x, w)"

definition raise :: "exn \<Rightarrow> 'a action" where
  "raise e w = (Inl e, w)"

definition lift :: "exn + 'a \<Rightarrow> 'a action" where
  "lift r w = (r, w)"

definition say :: "line \<Rightarrow> unit action" where
  "say l w = (Inr (), print l w)"

definition and_then :: "'a action \<Rightarrow> ('a \<Rightarrow> 'b action) \<Rightarrow> 'b action" where
  \<comment> \<open>One statement after another: an exception of the first skips the second.\<close>
  "and_then m f w = (case m w of (Inl e, w') \<Rightarrow> (Inl e, w') | (Inr x, w') \<Rightarrow> f x w')"

definition try_except :: "'a action \<Rightarrow> (exn \<Rightarrow> 'a action) \<Rightarrow> 'a action" where
  \<comment> \<open>The handler decides per exception; it re-raises what no \<^verbatim>\<open>except\<close> clause names.\<close>
  "try_except m handler w =
     (case m w of (Inl e, w') \<Rightarrow> handler e w' | (Inr x, w') \<Rightarrow> (Inr x, w'))"

subsection \<open>The library calls that touch the filesystem\<close>

definition mkdir_exist_ok :: "path \<Rightarrow> unit action" where
  \<comment> \<open>\<^verbatim>\<open>Path.mkdir(exist_ok=True)\<close>, with \<^verbatim>\<open>parents\<close> left at its default
      \<^verbatim>\<open>False\<close>: the parent has to be there.\<close>
  "mkdir_exist_ok p w =
     (let w1 = log (Mkdir p) w in
      case lookup (fs w) p of
        Some Dir \<Rightarrow> (Inr (), w1)
      | Some (File _) \<Rightarrow> (Inl FileExistsError, w1)
      | None \<Rightarrow>
          (if lookup (fs w) (parent p) = Some Dir
           then (Inr (), w1\<lparr>fs := (p, Dir) # fs w\<rparr>)
           else (Inl (missing_error (fs w) p), w1)))"

definition rmtree :: "path \<Rightarrow> unit action" where
  \<comment> \<open>\<^verbatim>\<open>shutil.rmtree\<close>: removes the directory and everything below it; it refuses
      a regular file.\<close>
  "rmtree p w =
     (let w1 = log (Rmtree p) w in
      case lookup (fs w) p of
        Some Dir \<Rightarrow> (Inr (), w1\<lparr>fs := filter (\<lambda>(q, n). \<not> prefix p q) (fs w)\<rparr>)
      | Some (File _) \<Rightarrow> (Inl NotADirectoryError, w1)
      | None \<Rightarrow> (Inl (missing_error (fs w) p), w1))"

definition copied_tree :: "path \<Rightarrow> path \<Rightarrow> filesystem \<Rightarrow> filesystem" where
  \<comment> \<open>The entries at and below \<open>src\<close>, re-rooted at \<open>dst\<close>.\<close>
  "copied_tree src dst fsys =
     map (\<lambda>(q, n). (dst @ drop (length src) q, n)) (filter (\<lambda>(q, n). prefix src q) fsys)"

definition missing_dirs :: "path \<Rightarrow> filesystem \<Rightarrow> filesystem" where
  "missing_dirs dst fsys =
     map (\<lambda>q. (q, Dir)) (filter (\<lambda>q. \<not> path_exists fsys q) (ancestors dst))"

definition copytree :: "path \<Rightarrow> path \<Rightarrow> unit action" where
  \<comment> \<open>\<^verbatim>\<open>shutil.copytree(src, dst)\<close>: lists \<open>src\<close>, creates \<open>dst\<close> with its
      missing parents (\<open>dst\<close> itself must not exist) and copies the tree.\<close>
  "copytree src dst w =
     (let w1 = log (Copytree src dst) w in
      case lookup (fs w) src of
        None \<Rightarrow> (Inl (missing_error (fs w) src), w1)
      | Some (File _) \<Rightarrow> (Inl NotADirectoryError, w1)
      | Some Dir \<Rightarrow>
          (if path_exists (fs w) dst then (Inl FileExistsError, w1)
           else if list_ex (is_file (fs w)) (ancestors dst) then (Inl NotADirectoryError, w1)
           else (Inr (),
                 w1\<lparr>fs := copied_tree src dst (fs w) @ missing_dirs dst (fs w) @ fs w\<rparr>)))"

definition cwd_error :: "filesystem \<Rightarrow> path option \<Rightarrow> exn option" where
  \<comment> \<open>The child process changes to \<^verbatim>\<open>cwd\<close> before it executes the program.\<close>
  "cwd_error fsys cwd =
     (case cwd of
        None \<Rightarrow> None
      | Some d \<Rightarrow>
          (case lookup fsys d of
             Some Dir \<Rightarrow> None
           | Some (File _) \<Rightarrow> Some NotADirectoryError
           | None \<Rightarrow> Some (missing_error fsys d)))"

definition subprocess_run :: "env \<Rightarrow> string list \<Rightarrow> path option \<Rightarrow> string action" where
  \<comment> \<open>\<^verbatim>\<open>subprocess.run(cmd, check=True, cwd=...)\<close>; the value is the standard
      output of the program.\<close>
  "subprocess_run E cmd cwd w =
     (let w1 = log (Run cmd) w in
      case cwd_error (fs w) cwd of
        Some e \<Rightarrow> (Inl e, w1)
      | None \<Rightarrow>
          (case program E cmd (fs w) of
             (Not_Found, _) \<Rightarrow> (Inl FileNotFoundError, w1)
           | (Completed rc out, fsys') \<Rightarrow>
               (if rc = 0 then Inr out else Inl (CalledProcessError rc), w1\<lparr>fs := fsys'\<rparr>)))"

subsection \<open>\<^verbatim>\<open>load_chapters\<close>\<close>

definition chapters_of_config :: "yaml \<Rightarrow> exn + yaml" where
  \<comment> \<open>Lines 43 to 45: the two \<^verbatim>\<open>config.get\<close> calls and the \<^verbatim>\<open>+\<close>.\<close>
  "chapters_of_config config =
     (case dict_get config (YStr ''chapters'') (YList []) of
        Inl e \<Rightarrow> Inl e
      | Inr chapters \<Rightarrow>
          (case dict_get config (YStr ''appendices'') (YList []) of
             Inl e \<Rightarrow> Inl e
           | Inr appendices \<Rightarrow> py_add chapters appendices))"

definition load_chapters :: "env \<Rightarrow> yaml action" where
  "load_chapters E w =
     (let w1 = log (Open (CHAPTERS_FILE E)) w in
      case lookup (fs w) (CHAPTERS_FILE E) of
        None \<Rightarrow> (Inl (missing_error (fs w) (CHAPTERS_FILE E)), w1)
      | Some Dir \<Rightarrow> (Inl IsADirectoryError, w1)
      | Some (File text) \<Rightarrow>
          (case safe_load E text of
             None \<Rightarrow> (Inl YAMLError, w1)
           | Some config \<Rightarrow> (chapters_of_config config, w1)))"

subsection \<open>\<^verbatim>\<open>get_chapter_paths\<close>\<close>

fun chapter_loop :: "env \<Rightarrow> yaml list \<Rightarrow> path list \<Rightarrow> path list action" where
  \<comment> \<open>The \<^verbatim>\<open>for\<close> loop, with the list \<^verbatim>\<open>paths\<close> built so far. Joining a value
      that is not a string to a path raises \<^verbatim>\<open>TypeError\<close>; \<^verbatim>\<open>path.exists()\<close>
      raises when the path cannot be examined, and nothing in the loop catches it.\<close>
  "chapter_loop E [] paths w = (Inr paths, w)"
| "chapter_loop E (chapter # rest) paths w =
     (case chapter of
        YStr name \<Rightarrow>
          (let path = join_name E (DOCS_DIR E) name in
           case stat_error E path of
             Some e \<Rightarrow> (Inl e, w)
           | None \<Rightarrow>
               if path_exists (fs w) path
               then chapter_loop E rest (paths @ [path]) w
               else chapter_loop E rest paths (print (Warning_Chapter_Not_Found name) w))
      | _ \<Rightarrow> (Inl TypeError, w))"

definition get_chapter_paths :: "env \<Rightarrow> yaml \<Rightarrow> path list action" where
  "get_chapter_paths E chapters =
     and_then (lift (py_iter chapters)) (\<lambda>items. chapter_loop E items [])"

subsection \<open>\<^verbatim>\<open>ensure_dist_dir\<close>, \<^verbatim>\<open>check_pandoc\<close> and \<^verbatim>\<open>clean\<close>\<close>

definition ensure_dist_dir :: "env \<Rightarrow> unit action" where
  "ensure_dist_dir E = mkdir_exist_ok (DIST_DIR E)"

definition version_cmd :: "string list" where
  "version_cmd = [''pandoc'', ''--version'']"

definition first_line :: "string \<Rightarrow> string" where
  \<comment> \<open>\<^verbatim>\<open>s.split("\n")[0]\<close>\<close>
  "first_line s = takeWhile (\<lambda>c. c \<noteq> CHR 0x0A) s"

definition check_pandoc :: "env \<Rightarrow> bool action" where
  "check_pandoc E =
     try_except
       (and_then (subprocess_run E version_cmd None) (\<lambda>out.
        and_then (say (OK_Found_Version (first_line out))) (\<lambda>_.
        ret True)))
       (\<lambda>e. case e of
          CalledProcessError rc \<Rightarrow> and_then (say ERROR_Pandoc_Not_Found) (\<lambda>_. ret False)
        | FileNotFoundError \<Rightarrow> and_then (say ERROR_Pandoc_Not_Found) (\<lambda>_. ret False)
        | _ \<Rightarrow> raise e)"

definition clean :: "env \<Rightarrow> unit action" where
  "clean E =
     and_then (say CLEAN_Cleaning) (\<lambda>_ w.
       if path_exists (fs w) (DIST_DIR E)
       then and_then (rmtree (DIST_DIR E)) (\<lambda>_. say OK_Removed_Dist) w
       else say OK_Dist_Already_Clean w)"

subsection \<open>The format builders\<close>

definition pdf_output :: "env \<Rightarrow> path" where
  "pdf_output E = DIST_DIR E @ [''vizpsyche-book.pdf'']"

definition pdf_cmd :: "env \<Rightarrow> path list \<Rightarrow> string list" where
  "pdf_cmd E chapters =
     [''pandoc''] @ map path_str chapters @
     [''-o'', path_str (pdf_output E),
      ''--metadata-file'', path_str (METADATA_FILE E),
      ''--template'', path_str (EISVOGEL_TEMPLATE E),
      ''--pdf-engine'', ''xelatex'',
      ''--syntax-highlighting=zenburn'',
      ''--toc'',
      ''--toc-depth=2'',
      ''--number-sections'',
      ''--top-level-division=chapter'',
      ''--resource-path'', path_str (DOCS_DIR E),
      ''-V'', ''geometry:margin=1in'',
      ''-V'', ''fontsize=11pt'']"

definition build_pdf :: "env \<Rightarrow> path list \<Rightarrow> bool action" where
  "build_pdf E chapters =
     and_then (say PDF_Building) (\<lambda>_.
     try_except
       (and_then (subprocess_run E (pdf_cmd E chapters) (Some (DOCS_DIR E))) (\<lambda>_.
        and_then (say (OK_PDF_Generated (pdf_output E))) (\<lambda>_.
        ret True)))
       (\<lambda>e. case e of
          CalledProcessError rc \<Rightarrow> and_then (say (ERROR_PDF_Build_Failed rc)) (\<lambda>_. ret False)
        | FileNotFoundError \<Rightarrow> and_then (say ERROR_Xelatex_Not_Found) (\<lambda>_. ret False)
        | _ \<Rightarrow> raise e))"

definition html_dir :: "env \<Rightarrow> path" where
  "html_dir E = DIST_DIR E @ [''html'']"

definition html_output :: "env \<Rightarrow> path" where
  "html_output E = html_dir E @ [''index.html'']"

definition images_src :: "env \<Rightarrow> path" where
  "images_src E = DOCS_DIR E @ [''images'']"

definition images_dst :: "env \<Rightarrow> path" where
  "images_dst E = html_dir E @ [''images'']"

definition copy_images :: "env \<Rightarrow> unit action" where
  \<comment> \<open>Lines 128 to 134 of \<^verbatim>\<open>build_html\<close>, the block under \<^verbatim>\<open># Copy images\<close>.\<close>
  "copy_images E w =
     (if path_exists (fs w) (images_src E)
      then and_then
             (\<lambda>w. if path_exists (fs w) (images_dst E) then rmtree (images_dst E) w
                  else ret () w)
             (\<lambda>_. copytree (images_src E) (images_dst E)) w
      else ret () w)"

definition html_cmd :: "env \<Rightarrow> path list \<Rightarrow> string list" where
  "html_cmd E chapters =
     [''pandoc''] @ map path_str chapters @
     [''-o'', path_str (html_output E),
      ''--metadata-file'', path_str (METADATA_FILE E),
      ''--standalone'',
      ''--css'', path_str (STYLE_CSS E),
      ''--embed-resources'',
      ''--toc'',
      ''--toc-depth=2'',
      ''--number-sections'',
      ''--syntax-highlighting=zenburn'',
      ''--resource-path'', path_str (DOCS_DIR E),
      ''-V'', ''title-prefix=VizPsyche'']"

definition build_html :: "env \<Rightarrow> path list \<Rightarrow> bool action" where
  "build_html E chapters =
     and_then (say HTML_Building) (\<lambda>_.
     and_then (mkdir_exist_ok (html_dir E)) (\<lambda>_.
     and_then (copy_images E) (\<lambda>_.
     try_except
       (and_then (subprocess_run E (html_cmd E chapters) (Some (DOCS_DIR E))) (\<lambda>_.
        and_then (say (OK_HTML_Generated (html_output E))) (\<lambda>_.
        ret True)))
       (\<lambda>e. case e of
          CalledProcessError rc \<Rightarrow> and_then (say (ERROR_HTML_Build_Failed rc)) (\<lambda>_. ret False)
        | _ \<Rightarrow> raise e))))"

definition epub_output :: "env \<Rightarrow> path" where
  "epub_output E = DIST_DIR E @ [''vizpsyche-book.epub'']"

definition epub_cmd :: "env \<Rightarrow> path list \<Rightarrow> string list" where
  "epub_cmd E chapters =
     [''pandoc''] @ map path_str chapters @
     [''-o'', path_str (epub_output E),
      ''--metadata-file'', path_str (METADATA_FILE E),
      ''--css'', path_str (STYLE_CSS E),
      ''--toc'',
      ''--toc-depth=2'',
      ''--number-sections'',
      ''--syntax-highlighting=zenburn'',
      ''--resource-path'', path_str (DOCS_DIR E),
      ''--split-level=1'']"

definition build_epub :: "env \<Rightarrow> path list \<Rightarrow> bool action" where
  "build_epub E chapters =
     and_then (say EPUB_Building) (\<lambda>_.
     try_except
       (and_then (subprocess_run E (epub_cmd E chapters) (Some (DOCS_DIR E))) (\<lambda>_.
        and_then (say (OK_EPUB_Generated (epub_output E))) (\<lambda>_.
        ret True)))
       (\<lambda>e. case e of
          CalledProcessError rc \<Rightarrow> and_then (say (ERROR_EPUB_Build_Failed rc)) (\<lambda>_. ret False)
        | _ \<Rightarrow> raise e))"

subsection \<open>\<^verbatim>\<open>main\<close>\<close>

text \<open>
  \<^verbatim>\<open>argparse\<close> accepts exactly five values for the positional argument; \<open>main\<close>
  starts where \<^verbatim>\<open>parse_args\<close> has returned one of them. Its result is how the
  process ends: \<open>Inr ()\<close> when \<^verbatim>\<open>main\<close> returns, \<open>Inl (SystemExit n)\<close> for
  \<^verbatim>\<open>sys.exit(n)\<close>, any other \<open>Inl e\<close> for an exception nobody caught.
\<close>

datatype command = Pdf | Html | Epub | All | Clean

definition run_if :: "bool \<Rightarrow> bool action \<Rightarrow> bool \<Rightarrow> bool action" where
  \<comment> \<open>\<^verbatim>\<open>if args.command in (...): success = build(chapter_paths) and success\<close>:
      the builder is called first, then its result is combined.\<close>
  "run_if wanted build success =
     (if wanted then and_then build (\<lambda>ok. ret (ok \<and> success)) else ret success)"

definition main :: "env \<Rightarrow> command \<Rightarrow> unit action" where
  "main E command =
     and_then (say Rule_Line) (\<lambda>_.
     and_then (say Title_Line) (\<lambda>_.
     and_then (say Rule_Line) (\<lambda>_.
     if command = Clean then clean E
     else
     and_then (check_pandoc E) (\<lambda>found.
     if \<not> found then raise (SystemExit 1)
     else
     and_then (load_chapters E) (\<lambda>chapters_list.
     and_then (lift (py_len chapters_list)) (\<lambda>n.
     and_then (say (OK_Found_Chapters n)) (\<lambda>_.
     and_then (get_chapter_paths E chapters_list) (\<lambda>chapter_paths.
     if chapter_paths = []
     then and_then (say ERROR_No_Chapters_Found) (\<lambda>_. raise (SystemExit 1))
     else
     and_then (ensure_dist_dir E) (\<lambda>_.
     and_then (run_if (command = Pdf \<or> command = All) (build_pdf E chapter_paths) True)
       (\<lambda>success.
     and_then (run_if (command = Html \<or> command = All) (build_html E chapter_paths) success)
       (\<lambda>success.
     and_then (run_if (command = Epub \<or> command = All) (build_epub E chapter_paths) success)
       (\<lambda>success.
     and_then (say Closing_Rule_Line) (\<lambda>_.
     if success
     then and_then (say OK_Build_Complete) (\<lambda>_. say (Output_Line (DIST_DIR E)))
     else and_then (say ERROR_Build_Completed_With_Errors) (\<lambda>_.
          raise (SystemExit 1)))))))))))))))"

fun exit_code :: "exn + unit \<Rightarrow> int" where
  \<comment> \<open>The exit status of the interpreter: 1 for an uncaught exception.\<close>
  "exit_code (Inr _) = 0"
| "exit_code (Inl (SystemExit n)) = n"
| "exit_code (Inl _) = 1"

subsection \<open>A sample project\<close>

text \<open>
  A small project on which the results below are run: the script lives in
  \<^verbatim>\<open>/book/build\<close>, the manifest lists \<^verbatim>\<open>a.md\<close>, \<^verbatim>\<open>b.md\<close> and the
  appendix \<^verbatim>\<open>c.md\<close>, of which \<^verbatim>\<open>b.md\<close> is not on disk. The sample converter
  answers the version query, fails with status 43 when asked for a PDF and succeeds
  otherwise; it writes nothing. A path with a component of more than 255 characters
  cannot be examined.
\<close>

definition sample_manifest_text :: string where
  "sample_manifest_text = ''chapters: [a.md, b.md]'' @ [CHR 0x0A] @ ''appendices: [c.md]''"

definition sample_manifest :: yaml where
  "sample_manifest =
     YMap [(YStr ''chapters'', YList [YStr ''a.md'', YStr ''b.md'']),
           (YStr ''appendices'', YList [YStr ''c.md''])]"

definition sample_parser :: "string \<Rightarrow> yaml option" where
  "sample_parser text =
     (if text = sample_manifest_text then Some sample_manifest
      else if text = ''chapters: [a.md, b.md]''
        then Some (YMap [(YStr ''chapters'', YList [YStr ''a.md'', YStr ''b.md''])])
      else if text = ''chapters: [b.md]''
        then Some (YMap [(YStr ''chapters'', YList [YStr ''b.md''])])
      else if text = ''title: Book'' then Some (YMap [(YStr ''title'', YStr ''Book'')])
      else if text = ''- a.md'' then Some (YList [YStr ''a.md''])
      else if text = [] then Some YNull
      else None)"

definition sample_pandoc :: "string list \<Rightarrow> filesystem \<Rightarrow> proc_result \<times> filesystem" where
  "sample_pandoc cmd fsys =
     (if cmd = version_cmd then (Completed 0 (''pandoc 3.1.9'' @ [CHR 0x0A] @ ''Features: +lua''), fsys)
      else if ''--pdf-engine'' \<in> set cmd then (Completed 43 [], fsys)
      else (Completed 0 [], fsys))"

definition no_pandoc :: "string list \<Rightarrow> filesystem \<Rightarrow> proc_result \<times> filesystem" where
  "no_pandoc cmd fsys = (Not_Found, fsys)"

definition sample_env :: env where
  "sample_env =
     \<lparr>BUILD_DIR = [''book'', ''build''],
      safe_load = sample_parser,
      join_name = (\<lambda>d name. d @ [name]),
      stat_error = (\<lambda>p. if list_ex (\<lambda>c. 255 < length c) p then Some (OSError 36) else None),
      program = sample_pandoc\<rparr>"

definition sample_fs :: "string \<Rightarrow> filesystem" where
  \<comment> \<open>The project with the given text in \<^verbatim>\<open>chapters.yaml\<close>, before any build.\<close>
  "sample_fs text =
     [([], Dir),
      ([''book''], Dir),
      ([''book'', ''build''], Dir),
      ([''book'', ''build'', ''chapters.yaml''], File text),
      ([''book'', ''a.md''], File ''# A''),
      ([''book'', ''c.md''], File ''# C''),
      ([''book'', ''images''], Dir),
      ([''book'', ''images'', ''fig.png''], File ''PNG'')]"

definition built_fs :: filesystem where
  \<comment> \<open>The same project after an earlier HTML build, with a stale image in the copy.\<close>
  "built_fs =
     [([''book'', ''dist''], Dir),
      ([''book'', ''dist'', ''html''], Dir),
      ([''book'', ''dist'', ''html'', ''images''], Dir),
      ([''book'', ''dist'', ''html'', ''images'', ''old.png''], File ''OLD'')]
     @ sample_fs sample_manifest_text"

definition bare_fs :: filesystem where
  \<comment> \<open>A project without an \<^verbatim>\<open>images\<close> directory, with its output directory.\<close>
  "bare_fs =
     [([], Dir),
      ([''book''], Dir),
      ([''book'', ''dist''], Dir),
      ([''book'', ''a.md''], File ''# A'')]"

definition start :: "filesystem \<Rightarrow> world" where
  "start fsys = \<lparr>fs = fsys, trace = []\<rparr>"

definition wf_fs :: "filesystem \<Rightarrow> bool" where
  \<comment> \<open>Every entry but the root lies in a directory.\<close>
  "wf_fs fsys = list_all (\<lambda>(p, n). p = [] \<or> lookup fsys (parent p) = Some Dir) fsys"

section \<open>Results\<close>

subsection \<open>Basic facts about the world and the library calls\<close>

lemma fs_log [simp]: "fs (log e w) = fs w"
  by (simp add: log_def)

lemma trace_log [simp]: "trace (log e w) = trace w @ [e]"
  by (simp add: log_def)

lemma fs_print [simp]: "fs (print l w) = fs w"
  by (simp add: print_def)

lemma trace_print [simp]: "trace (print l w) = trace w @ [Print l]"
  by (simp add: print_def)

lemmas action_defs = ret_def raise_def lift_def say_def and_then_def try_except_def

lemma lookup_rmtree:
  "lookup (filter (\<lambda>(q, n). \<not> prefix p q) fsys) q = (if prefix p q then None else lookup fsys q)"
  by (induction fsys) (auto simp: lookup_def)

lemma main_build_command:
  assumes "command \<noteq> Clean"
    and "check_pandoc E (print Rule_Line (print Title_Line (print Rule_Line w))) = (Inr True, w1)"
  shows "main E command w =
    (and_then (load_chapters E) (\<lambda>chapters_list.
     and_then (lift (py_len chapters_list)) (\<lambda>n.
     and_then (say (OK_Found_Chapters n)) (\<lambda>_.
     and_then (get_chapter_paths E chapters_list) (\<lambda>chapter_paths.
     if chapter_paths = []
     then and_then (say ERROR_No_Chapters_Found) (\<lambda>_. raise (SystemExit 1))
     else
     and_then (ensure_dist_dir E) (\<lambda>_.
     and_then (run_if (command = Pdf \<or> command = All) (build_pdf E chapter_paths) True)
       (\<lambda>success.
     and_then (run_if (command = Html \<or> command = All) (build_html E chapter_paths) success)
       (\<lambda>success.
     and_then (run_if (command = Epub \<or> command = All) (build_epub E chapter_paths) success)
       (\<lambda>success.
     and_then (say Closing_Rule_Line) (\<lambda>_.
     if success
     then and_then (say OK_Build_Complete) (\<lambda>_. say (Output_Line (DIST_DIR E)))
     else and_then (say ERROR_Build_Completed_With_Errors) (\<lambda>_.
          raise (SystemExit 1)))))))))))) w1"
  using assms by (simp add: main_def and_then_def say_def raise_def)

lemma loader_exception_is_uncaught:
  assumes "command \<noteq> Clean"
    and "check_pandoc E (print Rule_Line (print Title_Line (print Rule_Line w))) = (Inr True, w1)"
    and "load_chapters E w1 = (Inl e, w2)"
  shows "main E command w = (Inl e, w2)"
  using assms(3) by (simp add: main_build_command [OF assms(1,2)] and_then_def)



lemma chapter_loop_effects:
  "chapter_loop E items acc w = (r, w') \<Longrightarrow>
     fs w' = fs w \<and> (\<exists>ls. trace w' = trace w @ map Print ls)"
proof (induction items arbitrary: acc w)
  case Nil
  then show ?case by auto
next
  case (Cons item items)
  show ?case
  proof (cases item)
    case (YStr name)
    let ?p = "join_name E (DOCS_DIR E) name"
    show ?thesis
    proof (cases "stat_error E ?p")
      case (Some e)
      with Cons.prems YStr have "w' = w" by simp
      then have "fs w' = fs w \<and> trace w' = trace w @ map Print []" by simp
      then show ?thesis by blast
    next
      case None
      show ?thesis
      proof (cases "path_exists (fs w) ?p")
        case True
        with Cons.prems YStr None have "chapter_loop E items (acc @ [?p]) w = (r, w')"
          by simp
        from Cons.IH [OF this] show ?thesis .
      next
        case False
        with Cons.prems YStr None
        have "chapter_loop E items acc (print (Warning_Chapter_Not_Found name) w) = (r, w')"
          by simp
        from Cons.IH [OF this] obtain ls
          where "fs w' = fs w"
            and "trace w' = trace w @ Print (Warning_Chapter_Not_Found name) # map Print ls"
          by auto
        then have "trace w' = trace w @ map Print (Warning_Chapter_Not_Found name # ls)" by simp
        with \<open>fs w' = fs w\<close> show ?thesis by blast
      qed
    qed
  qed (use Cons.prems in auto)
qed

lemma get_chapter_paths_effects:
  assumes "get_chapter_paths E chapters w = (r, w')"
  shows "fs w' = fs w \<and> (\<exists>ls. trace w' = trace w @ map Print ls)"
proof (cases "py_iter chapters")
  case (Inl e)
  with assms show ?thesis
    by (auto simp: get_chapter_paths_def action_defs)
next
  case (Inr items)
  with assms have "chapter_loop E items [] w = (r, w')"
    by (simp add: get_chapter_paths_def action_defs)
  then show ?thesis by (rule chapter_loop_effects)
qed

lemma load_chapters_effects:
  "load_chapters E w = (r, w') \<Longrightarrow> w' = log (Open (CHAPTERS_FILE E)) w"
  by (auto simp: load_chapters_def Let_def split: option.splits node.splits)

lemma check_pandoc_fails:
  assumes "\<forall>out. fst (program E version_cmd (fs w)) \<noteq> Completed 0 out"
  shows "\<exists>w'. check_pandoc E w = (Inr False, w')
           \<and> trace w' = trace w @ [Run version_cmd, Print ERROR_Pandoc_Not_Found]"
proof (cases "program E version_cmd (fs w)")
  case (Pair r fsys')
  show ?thesis
  proof (cases r)
    case Not_Found
    with Pair show ?thesis
      by (simp add: check_pandoc_def subprocess_run_def cwd_error_def action_defs)
  next
    case (Completed rc out)
    with Pair assms have "rc \<noteq> 0" by auto
    with Pair Completed show ?thesis
      by (simp add: check_pandoc_def subprocess_run_def cwd_error_def action_defs)
  qed
qed

lemma clean_effects:
  "\<exists>es. trace (snd (clean E w)) = trace w @ es \<and> (\<forall>c. Run c \<notin> set es)"
proof (cases "lookup (fs w) (DIST_DIR E)")
  case None
  then show ?thesis
    by (simp add: clean_def path_exists_def action_defs)
next
  case (Some nd)
  then show ?thesis
    by (cases nd) (simp_all add: clean_def rmtree_def path_exists_def action_defs)
qed

lemma subprocess_run_trace:
  "subprocess_run E cmd cwd w = (r, w') \<Longrightarrow> trace w' = trace w @ [Run cmd]"
  by (auto simp: subprocess_run_def Let_def split: option.splits prod.splits proc_result.splits if_splits)

lemma build_pdf_trace:
  assumes "build_pdf E chapters w = (r, w')"
  shows "\<exists>t. trace w' = trace w @ Print PDF_Building # Run (pdf_cmd E chapters) # t"
proof -
  obtain r1 w1 where s: "subprocess_run E (pdf_cmd E chapters) (Some (DOCS_DIR E)) (print PDF_Building w) = (r1, w1)"
    by (cases "subprocess_run E (pdf_cmd E chapters) (Some (DOCS_DIR E)) (print PDF_Building w)")
  from subprocess_run_trace [OF s]
  have t: "trace w1 = trace w @ [Print PDF_Building, Run (pdf_cmd E chapters)]" by simp
  show ?thesis
  proof (cases r1)
    case (Inr out)
    with assms s t show ?thesis by (auto simp: build_pdf_def action_defs)
  next
    case (Inl e)
    with assms s t show ?thesis
      by (cases e) (auto simp: build_pdf_def action_defs)
  qed
qed

lemma build_epub_trace:
  assumes "build_epub E chapters w = (r, w')"
  shows "\<exists>t. trace w' = trace w @ Print EPUB_Building # Run (epub_cmd E chapters) # t"
proof -
  obtain r1 w1 where s: "subprocess_run E (epub_cmd E chapters) (Some (DOCS_DIR E)) (print EPUB_Building w) = (r1, w1)"
    by (cases "subprocess_run E (epub_cmd E chapters) (Some (DOCS_DIR E)) (print EPUB_Building w)")
  from subprocess_run_trace [OF s]
  have t: "trace w1 = trace w @ [Print EPUB_Building, Run (epub_cmd E chapters)]" by simp
  show ?thesis
  proof (cases r1)
    case (Inr out)
    with assms s t show ?thesis by (auto simp: build_epub_def action_defs)
  next
    case (Inl e)
    with assms s t show ?thesis
      by (cases e) (auto simp: build_epub_def action_defs)
  qed
qed

lemma html_convert_trace:
  assumes "try_except
       (and_then (subprocess_run E (html_cmd E chapters) (Some (DOCS_DIR E))) (\<lambda>_.
        and_then (say (OK_HTML_Generated (html_output E))) (\<lambda>_.
        ret True)))
       (\<lambda>e. case e of
          CalledProcessError rc \<Rightarrow> and_then (say (ERROR_HTML_Build_Failed rc)) (\<lambda>_. ret False)
        | _ \<Rightarrow> raise e) w = (r, w')"
  shows "\<exists>t. trace w' = trace w @ Run (html_cmd E chapters) # t"
proof -
  obtain r1 w1 where s: "subprocess_run E (html_cmd E chapters) (Some (DOCS_DIR E)) w = (r1, w1)"
    by (cases "subprocess_run E (html_cmd E chapters) (Some (DOCS_DIR E)) w")
  from subprocess_run_trace [OF s]
  have t: "trace w1 = trace w @ [Run (html_cmd E chapters)]" by simp
  show ?thesis
  proof (cases r1)
    case (Inr out)
    with assms s t show ?thesis by (auto simp: action_defs)
  next
    case (Inl e)
    with assms s t show ?thesis
      by (cases e) (auto simp: action_defs)
  qed
qed

lemma build_html_trace:
  assumes "build_html E chapters w = (Inr ok, w')"
  shows "\<exists>t. trace w' = trace w @ Print HTML_Building # t"
proof -
  obtain r1 w1 where m: "mkdir_exist_ok (html_dir E) (print HTML_Building w) = (r1, w1)"
    by (cases "mkdir_exist_ok (html_dir E) (print HTML_Building w)")
  then have t1: "trace w1 = trace w @ [Print HTML_Building, Mkdir (html_dir E)]"
    by (auto simp: mkdir_exist_ok_def Let_def split: option.splits node.splits if_splits)
  from assms m obtain u where r1: "r1 = Inr u"
    by (cases r1) (auto simp: build_html_def action_defs)
  obtain r2 w2 where c: "copy_images E w1 = (r2, w2)"
    by (cases "copy_images E w1")
  then have "\<exists>t. trace w2 = trace w1 @ t"
    by (auto simp: copy_images_def rmtree_def copytree_def action_defs Let_def
        split: option.splits node.splits if_splits prod.splits sum.splits)
  then obtain t2 where t2: "trace w2 = trace w1 @ t2" by blast
  from assms m r1 c obtain u2 where r2: "r2 = Inr u2"
    by (cases r2) (auto simp: build_html_def action_defs)
  from assms m r1 c r2 have "try_except
       (and_then (subprocess_run E (html_cmd E chapters) (Some (DOCS_DIR E))) (\<lambda>_.
        and_then (say (OK_HTML_Generated (html_output E))) (\<lambda>_.
        ret True)))
       (\<lambda>e. case e of
          CalledProcessError rc \<Rightarrow> and_then (say (ERROR_HTML_Build_Failed rc)) (\<lambda>_. ret False)
        | _ \<Rightarrow> raise e) w2 = (Inr ok, w')"
    by (simp add: build_html_def and_then_def say_def)
  from html_convert_trace [OF this] obtain t3
    where "trace w' = trace w2 @ Run (html_cmd E chapters) # t3" by blast
  with t1 t2 show ?thesis by simp
qed


lemma wf_parent:
  assumes "wf_fs fsys" and "lookup fsys p = Some n" and "p \<noteq> []"
  shows "lookup fsys (butlast p) = Some Dir"
proof -
  from assms(2) have "(p, n) \<in> set fsys"
    by (auto simp: lookup_def dest: map_of_SomeD)
  with assms(1,3) show ?thesis
    by (auto simp: wf_fs_def list_all_iff parent_def)
qed

lemma wf_prefix:
  "wf_fs fsys \<Longrightarrow> lookup fsys (p @ r) \<noteq> None \<Longrightarrow> r \<noteq> [] \<Longrightarrow> lookup fsys p = Some Dir"
proof (induction r rule: rev_induct)
  case Nil
  then show ?case by simp
next
  case (snoc x r)
  from snoc.prems(2) obtain n where "lookup fsys (p @ r @ [x]) = Some n" by auto
  from wf_parent [OF snoc.prems(1) this]
  have d: "lookup fsys (p @ r) = Some Dir" by (simp add: butlast_append)
  show ?case
  proof (cases "r = []")
    case True
    with d show ?thesis by simp
  next
    case False
    with snoc.IH [OF snoc.prems(1)] d show ?thesis by simp
  qed
qed

lemma ancestors_split:
  assumes "a \<in> set (ancestors p)"
  shows "\<exists>r. r \<noteq> [] \<and> p = a @ r"
proof -
  from assms obtain n where "n < length p" and "a = take n p"
    by (auto simp: ancestors_def)
  then have "drop n p \<noteq> [] \<and> p = a @ drop n p" by simp
  then show ?thesis by blast
qed

lemma wf_ancestors:
  assumes "wf_fs fsys" and "lookup fsys p \<noteq> None" and "a \<in> set (ancestors p)"
  shows "lookup fsys a = Some Dir"
proof -
  from ancestors_split [OF assms(3)] obtain r where "r \<noteq> []" and "p = a @ r" by blast
  with wf_prefix [of fsys a r] assms(1,2) show ?thesis by simp
qed

lemma lookup_copied_tree:
  "lookup (copied_tree src dst fsys) (dst @ r) = lookup fsys (src @ r)"
proof (induction fsys)
  case Nil
  show ?case by (simp add: copied_tree_def lookup_def)
next
  case (Cons e fsys)
  obtain q n where e: "e = (q, n)" by (cases e)
  show ?case
  proof (cases "prefix src q")
    case True
    then obtain z where "q = src @ z" by (auto simp: prefix_def)
    with Cons.IH e show ?thesis
      by (simp add: copied_tree_def lookup_def)
  next
    case False
    then have "q \<noteq> src @ r" by auto
    with Cons.IH e False show ?thesis
      by (simp add: copied_tree_def lookup_def)
  qed
qed

lemma lookup_missing_dirs_below:
  "lookup (missing_dirs dst fsys) (dst @ r) = None"
proof -
  have "dst @ r \<notin> set (ancestors dst)"
    by (auto simp: ancestors_def dest!: arg_cong [where f = length])
  then show ?thesis
    by (auto simp: missing_dirs_def lookup_def map_of_eq_None_iff)
qed

lemma lookup_append:
  "lookup (xs @ ys) k = (case lookup xs k of None \<Rightarrow> lookup ys k | Some v \<Rightarrow> Some v)"
  by (simp add: lookup_def map_add_def split: option.splits)

lemma images_disjoint: "\<not> prefix (images_dst E) (images_src E @ r)"
  by (auto simp: images_dst_def images_src_def html_dir_def DIST_DIR_def prefix_def)

lemma images_dst_ancestors:
  "a \<in> set (ancestors (images_dst E)) \<Longrightarrow> \<not> prefix (images_dst E) a"
  by (auto simp: ancestors_def prefix_def dest!: arg_cong [where f = length])

lemma copytree_fresh:
  assumes "lookup (fs w) src = Some Dir"
    and "\<forall>r. lookup (fs w) (dst @ r) = None"
    and "\<forall>a \<in> set (ancestors dst). \<not> is_file (fs w) a"
  shows "\<exists>w'. copytree src dst w = (Inr (), w')
           \<and> trace w' = trace w @ [Copytree src dst]
           \<and> (\<forall>r. lookup (fs w') (dst @ r) = lookup (fs w) (src @ r))"
proof -
  from assms(2) [rule_format, of "[]"] have "\<not> path_exists (fs w) dst"
    by (simp add: path_exists_def)
  moreover from assms(3) have "\<not> list_ex (is_file (fs w)) (ancestors dst)"
    by (simp add: list_ex_iff)
  ultimately show ?thesis
    using assms(1,2)
    by (simp add: copytree_def Let_def lookup_append lookup_copied_tree
        lookup_missing_dirs_below split: option.splits)
qed

lemma mkdir_ok_dir:
  "mkdir_exist_ok p w = (Inr (), w1) \<Longrightarrow> lookup (fs w1) p = Some Dir"
  by (auto simp: mkdir_exist_ok_def Let_def lookup_def split: option.splits node.splits if_splits)

lemma images_dst_ancestors_dirs:
  assumes "wf_fs fsys" and "lookup fsys (html_dir E) = Some Dir"
    and "a \<in> set (ancestors (images_dst E))"
  shows "lookup fsys a = Some Dir"
proof -
  from assms(3) obtain n where n: "n < length (images_dst E)" and a: "a = take n (images_dst E)"
    by (auto simp: ancestors_def)
  show ?thesis
  proof (cases "n = length (html_dir E)")
    case True
    with a assms(2) show ?thesis by (simp add: images_dst_def)
  next
    case False
    with n have "n < length (html_dir E)" by (simp add: images_dst_def)
    with a have "a \<in> set (ancestors (html_dir E))"
      by (auto simp: ancestors_def images_dst_def)
    with wf_ancestors [OF assms(1), of "html_dir E" a] assms(2) show ?thesis by simp
  qed
qed

lemma parent_dist [simp]: "parent (DIST_DIR E) = DOCS_DIR E"
  by (simp add: parent_def DIST_DIR_def)




lemma copy_images_replaces:
  assumes wf: "wf_fs (fs w1)"
    and html: "lookup (fs w1) (html_dir E) = Some Dir"
    and dst: "\<not> is_file (fs w1) (images_dst E)"
    and src: "lookup (fs w1) (images_src E) = Some Dir"
  shows "\<exists>w2. copy_images E w1 = (Inr (), w2)
           \<and> trace w2 = trace w1
               @ (if path_exists (fs w1) (images_dst E) then [Rmtree (images_dst E)] else [])
               @ [Copytree (images_src E) (images_dst E)]
           \<and> (\<forall>r. lookup (fs w2) (images_dst E @ r) = lookup (fs w1) (images_src E @ r))"
proof (cases "path_exists (fs w1) (images_dst E)")
  case True
  with dst have d: "lookup (fs w1) (images_dst E) = Some Dir"
    by (auto simp: path_exists_def is_file_def split: option.splits node.splits)
  define w' where "w' = (log (Rmtree (images_dst E)) w1)
      \<lparr>fs := filter (\<lambda>(q, n). \<not> prefix (images_dst E) q) (fs w1)\<rparr>"
  have rm: "rmtree (images_dst E) w1 = (Inr (), w')"
    using d by (simp add: rmtree_def w'_def)
  have l: "lookup (fs w') q = (if prefix (images_dst E) q then None else lookup (fs w1) q)" for q
    by (simp add: w'_def lookup_rmtree)
  have s': "lookup (fs w') (images_src E @ r) = lookup (fs w1) (images_src E @ r)" for r
    by (simp add: l images_disjoint)
  have 1: "lookup (fs w') (images_src E) = Some Dir"
    using s' [of "[]"] src by simp
  have 2: "\<forall>r. lookup (fs w') (images_dst E @ r) = None"
    by (simp add: l)
  have 3: "\<forall>a \<in> set (ancestors (images_dst E)). \<not> is_file (fs w') a"
  proof
    fix a assume a: "a \<in> set (ancestors (images_dst E))"
    from images_dst_ancestors_dirs [OF wf html a] images_dst_ancestors [OF a]
    show "\<not> is_file (fs w') a" by (simp add: is_file_def l)
  qed
  from copytree_fresh [OF 1 2 3] obtain w2
    where "copytree (images_src E) (images_dst E) w' = (Inr (), w2)"
      and "trace w2 = trace w' @ [Copytree (images_src E) (images_dst E)]"
      and "\<forall>r. lookup (fs w2) (images_dst E @ r) = lookup (fs w') (images_src E @ r)"
    by blast
  with True src rm s' show ?thesis
    by (simp add: copy_images_def path_exists_def action_defs w'_def)
next
  case False
  then have none: "lookup (fs w1) (images_dst E) = None"
    by (simp add: path_exists_def)
  have 2: "\<forall>r. lookup (fs w1) (images_dst E @ r) = None"
  proof
    fix r
    show "lookup (fs w1) (images_dst E @ r) = None"
    proof (cases "r = []")
      case True
      with none show ?thesis by simp
    next
      case False
      show ?thesis
      proof (rule ccontr)
        assume "lookup (fs w1) (images_dst E @ r) \<noteq> None"
        from wf_prefix [OF wf this False] none show False by simp
      qed
    qed
  qed
  have 3: "\<forall>a \<in> set (ancestors (images_dst E)). \<not> is_file (fs w1) a"
  proof
    fix a assume a: "a \<in> set (ancestors (images_dst E))"
    from images_dst_ancestors_dirs [OF wf html a]
    show "\<not> is_file (fs w1) a" by (simp add: is_file_def)
  qed
  from copytree_fresh [OF src 2 3] obtain w2
    where "copytree (images_src E) (images_dst E) w1 = (Inr (), w2)"
      and "trace w2 = trace w1 @ [Copytree (images_src E) (images_dst E)]"
      and "\<forall>r. lookup (fs w2) (images_dst E @ r) = lookup (fs w1) (images_src E @ r)"
    by blast
  with False src show ?thesis
    by (simp add: copy_images_def path_exists_def action_defs)
qed

lemma build_html_after_copy:
  assumes "mkdir_exist_ok (html_dir E) (print HTML_Building w) = (Inr (), w1)"
    and "copy_images E w1 = (Inr (), w2)"
  shows "\<exists>rest. trace (snd (build_html E chapters w)) = trace w2 @ Run (html_cmd E chapters) # rest"
proof -
  let ?convert = "try_except
       (and_then (subprocess_run E (html_cmd E chapters) (Some (DOCS_DIR E))) (\<lambda>_.
        and_then (say (OK_HTML_Generated (html_output E))) (\<lambda>_.
        ret True)))
       (\<lambda>e. case e of
          CalledProcessError rc \<Rightarrow> and_then (say (ERROR_HTML_Build_Failed rc)) (\<lambda>_. ret False)
        | _ \<Rightarrow> raise e)"
  have b: "build_html E chapters w = ?convert w2"
    using assms by (simp add: build_html_def and_then_def say_def)
  obtain r w' where c: "?convert w2 = (r, w')" by (cases "?convert w2")
  from html_convert_trace [OF c] b c show ?thesis by simp
qed

subsection \<open>The dispatcher\<close>

text \<open>
  Claim C1. With the command \<^verbatim>\<open>all\<close>, once the preparation has succeeded, the three
  builders run one after the other, each in the world the previous one left, whatever
  the earlier ones returned; the overall result is the conjunction of the three
  results, and the process ends with status 0 when all three returned true and with
  status 1 otherwise.
\<close>

theorem all_runs_every_builder:
  assumes "check_pandoc E (print Rule_Line (print Title_Line (print Rule_Line w))) = (Inr True, w1)"
    and "load_chapters E w1 = (Inr chapters_list, w2)"
    and "py_len chapters_list = Inr n"
    and "get_chapter_paths E chapters_list (print (OK_Found_Chapters n) w2) = (Inr paths, w3)"
    and "paths \<noteq> []"
    and "ensure_dist_dir E w3 = (Inr (), w4)"
    and "build_pdf E paths w4 = (Inr ok_pdf, w5)"
    and "build_html E paths w5 = (Inr ok_html, w6)"
    and "build_epub E paths w6 = (Inr ok_epub, w7)"
  shows "main E All w =
           (if ok_pdf \<and> ok_html \<and> ok_epub
            then (Inr (), print (Output_Line (DIST_DIR E))
                            (print OK_Build_Complete (print Closing_Rule_Line w7)))
            else (Inl (SystemExit 1),
                  print ERROR_Build_Completed_With_Errors (print Closing_Rule_Line w7)))
       \<and> exit_code (fst (main E All w)) = (if ok_pdf \<and> ok_html \<and> ok_epub then 0 else 1)
       \<and> (\<exists>t1 t2 t3. trace (snd (main E All w)) =
             trace w4 @ Print PDF_Building # t1 @ Print HTML_Building # t2
               @ Print EPUB_Building # t3)"
proof -
  have m: "main E All w =
           (if ok_pdf \<and> ok_html \<and> ok_epub
            then (Inr (), print (Output_Line (DIST_DIR E))
                            (print OK_Build_Complete (print Closing_Rule_Line w7)))
            else (Inl (SystemExit 1),
                  print ERROR_Build_Completed_With_Errors (print Closing_Rule_Line w7)))"
    using assms(2-9)
    by (simp add: main_build_command [OF _ assms(1)] run_if_def action_defs)
  from build_pdf_trace [OF assms(7)] obtain t1
    where t1: "trace w5 = trace w4 @ Print PDF_Building # t1" by auto
  from build_html_trace [OF assms(8)] obtain t2
    where t2: "trace w6 = trace w5 @ Print HTML_Building # t2" by auto
  from build_epub_trace [OF assms(9)] obtain t3
    where t3: "trace w7 = trace w6 @ Print EPUB_Building # t3" by auto
  have "\<exists>t. trace (snd (main E All w)) = trace w7 @ t"
    by (simp add: m)
  then obtain t where "trace (snd (main E All w)) =
      trace w4 @ Print PDF_Building # t1 @ Print HTML_Building # t2 @ Print EPUB_Building # (t3 @ t)"
    using t1 t2 t3 by auto
  then have "\<exists>t1 t2 t3. trace (snd (main E All w)) =
             trace w4 @ Print PDF_Building # t1 @ Print HTML_Building # t2
               @ Print EPUB_Building # t3"
    by blast
  with m show ?thesis by simp
qed

text \<open>
  On the sample project the PDF conversion fails and the other two succeed: all three
  builders run and the process ends with status 1.
\<close>

theorem all_runs_every_builder_witness:
  "fst (main sample_env All (start (sample_fs sample_manifest_text))) = Inl (SystemExit 1)
   \<and> exit_code (fst (main sample_env All (start (sample_fs sample_manifest_text)))) = 1"
proof -
  let ?E = sample_env
  let ?w = "start (sample_fs sample_manifest_text)"
  let ?wb = "print Rule_Line (print Title_Line (print Rule_Line ?w))"
  let ?w1 = "snd (check_pandoc ?E ?wb)"
  let ?chs = "YList [YStr ''a.md'', YStr ''b.md'', YStr ''c.md'']"
  let ?w2 = "snd (load_chapters ?E ?w1)"
  let ?ps = "[[''book'', ''a.md''], [''book'', ''c.md'']]"
  let ?w3 = "snd (get_chapter_paths ?E ?chs (print (OK_Found_Chapters 3) ?w2))"
  let ?w4 = "snd (ensure_dist_dir ?E ?w3)"
  let ?w5 = "snd (build_pdf ?E ?ps ?w4)"
  let ?w6 = "snd (build_html ?E ?ps ?w5)"
  let ?w7 = "snd (build_epub ?E ?ps ?w6)"
  have 1: "check_pandoc ?E ?wb = (Inr True, ?w1)" by code_simp
  have 2: "load_chapters ?E ?w1 = (Inr ?chs, ?w2)" by code_simp
  have 3: "py_len ?chs = Inr 3" by simp
  have 4: "get_chapter_paths ?E ?chs (print (OK_Found_Chapters 3) ?w2) = (Inr ?ps, ?w3)"
    by code_simp
  have 5: "?ps \<noteq> []" by simp
  have 6: "ensure_dist_dir ?E ?w3 = (Inr (), ?w4)" by code_simp
  have 7: "build_pdf ?E ?ps ?w4 = (Inr False, ?w5)" by code_simp
  have 8: "build_html ?E ?ps ?w5 = (Inr True, ?w6)" by code_simp
  have 9: "build_epub ?E ?ps ?w6 = (Inr True, ?w7)" by code_simp
  from all_runs_every_builder [OF 1 2 3 4 5 6 7 8 9] show ?thesis by simp
qed

text \<open>
  Claim C4. For each of the build commands, when the resolved chapter list is empty the
  process prints the error line and ends with status 1. Since the environment check it
  has only opened the manifest and printed: the filesystem is as the check left it, so
  no output directory was created and no builder ran.
\<close>

theorem no_chapters_aborts_before_build:
  assumes "command \<noteq> Clean"
    and "check_pandoc E (print Rule_Line (print Title_Line (print Rule_Line w))) = (Inr True, w1)"
    and "load_chapters E w1 = (Inr chapters_list, w2)"
    and "py_len chapters_list = Inr n"
    and "get_chapter_paths E chapters_list (print (OK_Found_Chapters n) w2) = (Inr [], w3)"
  shows "main E command w = (Inl (SystemExit 1), print ERROR_No_Chapters_Found w3)
       \<and> exit_code (fst (main E command w)) = 1
       \<and> fs (snd (main E command w)) = fs w1
       \<and> (\<exists>warnings. trace (snd (main E command w)) =
             trace w1 @ Open (CHAPTERS_FILE E) # Print (OK_Found_Chapters n)
               # map Print warnings @ [Print ERROR_No_Chapters_Found])"
proof -
  have m: "main E command w = (Inl (SystemExit 1), print ERROR_No_Chapters_Found w3)"
    using assms(3-5) by (simp add: main_build_command [OF assms(1,2)] action_defs)
  have w2: "w2 = log (Open (CHAPTERS_FILE E)) w1"
    using assms(3) by (rule load_chapters_effects)
  from get_chapter_paths_effects [OF assms(5)] obtain ls
    where "fs w3 = fs w2" and "trace w3 = trace w2 @ Print (OK_Found_Chapters n) # map Print ls"
    by auto
  with m w2 show ?thesis by auto
qed

text \<open>
  With a manifest that lists only the missing \<^verbatim>\<open>b.md\<close>, the run ends with status 1
  and the filesystem is untouched.
\<close>

theorem no_chapters_aborts_before_build_witness:
  "fst (main sample_env Epub (start (sample_fs ''chapters: [b.md]''))) = Inl (SystemExit 1)
   \<and> exit_code (fst (main sample_env Epub (start (sample_fs ''chapters: [b.md]'')))) = 1
   \<and> fs (snd (main sample_env Epub (start (sample_fs ''chapters: [b.md]''))))
       = sample_fs ''chapters: [b.md]''"
proof -
  let ?E = sample_env
  let ?w = "start (sample_fs ''chapters: [b.md]'')"
  let ?wb = "print Rule_Line (print Title_Line (print Rule_Line ?w))"
  let ?w1 = "snd (check_pandoc ?E ?wb)"
  let ?chs = "YList [YStr ''b.md'']"
  let ?w2 = "snd (load_chapters ?E ?w1)"
  let ?w3 = "snd (get_chapter_paths ?E ?chs (print (OK_Found_Chapters 1) ?w2))"
  have 0: "Epub \<noteq> Clean" by simp
  have 1: "check_pandoc ?E ?wb = (Inr True, ?w1)" by code_simp
  have 2: "load_chapters ?E ?w1 = (Inr ?chs, ?w2)" by code_simp
  have 3: "py_len ?chs = Inr 1" by simp
  have 4: "get_chapter_paths ?E ?chs (print (OK_Found_Chapters 1) ?w2) = (Inr [], ?w3)"
    by code_simp
  have 5: "fs ?w1 = sample_fs ''chapters: [b.md]''" by code_simp
  note r = no_chapters_aborts_before_build [OF 0 1 2 3 4]
  from r [THEN conjunct1] have a: "fst (main ?E Epub ?w) = Inl (SystemExit 1)" by simp
  note b = r [THEN conjunct2, THEN conjunct1]
  from r [THEN conjunct2, THEN conjunct2, THEN conjunct1] 5
  have c: "fs (snd (main ?E Epub ?w)) = sample_fs ''chapters: [b.md]''" by (rule trans)
  from a b c show ?thesis by blast
qed

text \<open>
  Claim C5. For each of the build commands, when the version query does not complete
  with status 0 (the executable is missing, or it exits non-zero) the process ends with
  status 1 right after the diagnostic: the manifest is never opened. The command
  \<^verbatim>\<open>clean\<close> never starts a subprocess.
\<close>

theorem failed_check_stops_before_manifest:
  "(command \<noteq> Clean \<and> (\<forall>out. fst (program E version_cmd (fs w)) \<noteq> Completed 0 out) \<longrightarrow>
      (\<exists>w'. main E command w = (Inl (SystemExit 1), w')
         \<and> exit_code (fst (main E command w)) = 1
         \<and> trace w' = trace w @ [Print Rule_Line, Print Title_Line, Print Rule_Line,
                                  Run version_cmd, Print ERROR_Pandoc_Not_Found]))
   \<and> (\<exists>es. trace (snd (main E Clean w)) = trace w @ es \<and> (\<forall>c. Run c \<notin> set es))"
proof (intro conjI impI)
  let ?w0 = "print Rule_Line (print Title_Line (print Rule_Line w))"
  assume a: "command \<noteq> Clean \<and> (\<forall>out. fst (program E version_cmd (fs w)) \<noteq> Completed 0 out)"
  then have "\<forall>out. fst (program E version_cmd (fs ?w0)) \<noteq> Completed 0 out" by simp
  from check_pandoc_fails [OF this] obtain w'
    where "check_pandoc E ?w0 = (Inr False, w')"
      and "trace w' = trace ?w0 @ [Run version_cmd, Print ERROR_Pandoc_Not_Found]"
    by blast
  with a show "\<exists>w'. main E command w = (Inl (SystemExit 1), w')
         \<and> exit_code (fst (main E command w)) = 1
         \<and> trace w' = trace w @ [Print Rule_Line, Print Title_Line, Print Rule_Line,
                                  Run version_cmd, Print ERROR_Pandoc_Not_Found]"
    by (simp add: main_def action_defs)
next
  let ?w0 = "print Rule_Line (print Title_Line (print Rule_Line w))"
  from clean_effects [of E ?w0] obtain es
    where "trace (snd (clean E ?w0)) = trace ?w0 @ es" and "\<forall>c. Run c \<notin> set es"
    by blast
  then have "trace (snd (main E Clean w)) =
      trace w @ ([Print Rule_Line, Print Title_Line, Print Rule_Line] @ es)
    \<and> (\<forall>c. Run c \<notin> set ([Print Rule_Line, Print Title_Line, Print Rule_Line] @ es))"
    by (simp add: main_def action_defs)
  then show "\<exists>es. trace (snd (main E Clean w)) = trace w @ es \<and> (\<forall>c. Run c \<notin> set es)"
    by blast
qed

text \<open>
  Without a converter on the machine, a PDF build ends with status 1 and never opens
  the manifest.
\<close>

theorem failed_check_stops_before_manifest_witness:
  "exit_code (fst (main (sample_env\<lparr>program := no_pandoc\<rparr>) Pdf
                     (start (sample_fs sample_manifest_text)))) = 1
   \<and> Open (CHAPTERS_FILE (sample_env\<lparr>program := no_pandoc\<rparr>))
       \<notin> set (trace (snd (main (sample_env\<lparr>program := no_pandoc\<rparr>) Pdf
                              (start (sample_fs sample_manifest_text)))))"
proof -
  let ?E = "sample_env\<lparr>program := no_pandoc\<rparr>"
  let ?w = "start (sample_fs sample_manifest_text)"
  have h: "Pdf \<noteq> Clean \<and> (\<forall>out. fst (program ?E version_cmd (fs ?w)) \<noteq> Completed 0 out)"
    by (simp add: no_pandoc_def)
  from failed_check_stops_before_manifest [of Pdf ?E ?w, THEN conjunct1, THEN mp, OF h]
  obtain w' where "main ?E Pdf ?w = (Inl (SystemExit 1), w')"
    and "trace w' = trace ?w @ [Print Rule_Line, Print Title_Line, Print Rule_Line,
                                  Run version_cmd, Print ERROR_Pandoc_Not_Found]"
    by blast
  then show ?thesis by (simp add: start_def)
qed

text \<open>
  Claim C6. The command \<^verbatim>\<open>clean\<close> ends with status 0 whether the output directory is
  there or not. When it is there, it is removed with everything below it (it no longer
  exists afterwards, and nothing outside it changes) and the removal is reported; when
  it is not there, the script reports that it was already clean and the filesystem is
  unchanged.
\<close>

theorem clean_exits_zero:
  "(lookup (fs w) (DIST_DIR E) = Some Dir \<longrightarrow>
      (\<exists>w'. main E Clean w = (Inr (), w')
         \<and> exit_code (fst (main E Clean w)) = 0
         \<and> \<not> path_exists (fs w') (DIST_DIR E)
         \<and> (\<forall>q. lookup (fs w') q = (if prefix (DIST_DIR E) q then None else lookup (fs w) q))
         \<and> trace w' = trace w @ [Print Rule_Line, Print Title_Line, Print Rule_Line,
              Print CLEAN_Cleaning, Rmtree (DIST_DIR E), Print OK_Removed_Dist]))
   \<and> (lookup (fs w) (DIST_DIR E) = None \<longrightarrow>
        main E Clean w =
          (Inr (), w\<lparr>trace := trace w @ [Print Rule_Line, Print Title_Line, Print Rule_Line,
              Print CLEAN_Cleaning, Print OK_Dist_Already_Clean]\<rparr>)
        \<and> exit_code (fst (main E Clean w)) = 0)"
  by (simp add: main_def clean_def rmtree_def path_exists_def lookup_rmtree action_defs
      print_def log_def)

text \<open>
  Cleaning the built project removes \<^verbatim>\<open>dist\<close>; cleaning the fresh project only
  prints.
\<close>

theorem clean_exits_zero_witness:
  "exit_code (fst (main sample_env Clean (start built_fs))) = 0
   \<and> \<not> path_exists (fs (snd (main sample_env Clean (start built_fs)))) (DIST_DIR sample_env)
   \<and> main sample_env Clean (start (sample_fs sample_manifest_text)) =
       (Inr (), \<lparr>fs = sample_fs sample_manifest_text,
                 trace = [Print Rule_Line, Print Title_Line, Print Rule_Line,
                          Print CLEAN_Cleaning, Print OK_Dist_Already_Clean]\<rparr>)"
proof -
  have 1: "lookup (fs (start built_fs)) (DIST_DIR sample_env) = Some Dir" by code_simp
  have 2: "lookup (fs (start (sample_fs sample_manifest_text))) (DIST_DIR sample_env) = None"
    by code_simp
  from clean_exits_zero [of "start built_fs" sample_env, THEN conjunct1, THEN mp, OF 1]
  have a: "exit_code (fst (main sample_env Clean (start built_fs))) = 0
     \<and> \<not> path_exists (fs (snd (main sample_env Clean (start built_fs)))) (DIST_DIR sample_env)"
    by auto
  from clean_exits_zero [of "start (sample_fs sample_manifest_text)" sample_env,
      THEN conjunct2, THEN mp, OF 2]
  have "main sample_env Clean (start (sample_fs sample_manifest_text)) =
       (Inr (), \<lparr>fs = sample_fs sample_manifest_text,
                 trace = [Print Rule_Line, Print Title_Line, Print Rule_Line,
                          Print CLEAN_Cleaning, Print OK_Dist_Already_Clean]\<rparr>)"
    by (simp add: start_def)
  with a show ?thesis by simp
qed

subsection \<open>The manifest and the chapter paths\<close>

text \<open>
  Claim C2. For a manifest that parses to a mapping whose \<^verbatim>\<open>chapters\<close> and
  \<^verbatim>\<open>appendices\<close> entries, where present, are lists, the loader returns the chapters
  followed by the appendices, each in its own order; an absent key counts as the empty
  list and the loader still succeeds.
\<close>

theorem load_chapters_concatenates:
  assumes "lookup (fs w) (CHAPTERS_FILE E) = Some (File text)"
    and "safe_load E text = Some (YMap items)"
    and "map_of items (YStr ''chapters'') = Some (YList chapters)
         \<or> map_of items (YStr ''chapters'') = None \<and> chapters = []"
    and "map_of items (YStr ''appendices'') = Some (YList appendices)
         \<or> map_of items (YStr ''appendices'') = None \<and> appendices = []"
  shows "load_chapters E w =
           (Inr (YList (chapters @ appendices)), log (Open (CHAPTERS_FILE E)) w)"
  using assms by (auto simp: load_chapters_def chapters_of_config_def)

text \<open>
  The sample manifest yields \<^verbatim>\<open>a.md\<close>, \<^verbatim>\<open>b.md\<close>, \<^verbatim>\<open>c.md\<close>; a manifest without
  appendices yields its chapters alone.
\<close>

theorem load_chapters_concatenates_witness:
  "load_chapters sample_env (start (sample_fs sample_manifest_text)) =
     (Inr (YList [YStr ''a.md'', YStr ''b.md'', YStr ''c.md'']),
      log (Open (CHAPTERS_FILE sample_env)) (start (sample_fs sample_manifest_text)))
   \<and> load_chapters sample_env (start (sample_fs ''chapters: [a.md, b.md]'')) =
     (Inr (YList [YStr ''a.md'', YStr ''b.md'']),
      log (Open (CHAPTERS_FILE sample_env)) (start (sample_fs ''chapters: [a.md, b.md]'')))"
proof -
  let ?items = "[(YStr ''chapters'', YList [YStr ''a.md'', YStr ''b.md'']),
                 (YStr ''appendices'', YList [YStr ''c.md''])]"
  let ?items' = "[(YStr ''chapters'', YList [YStr ''a.md'', YStr ''b.md''])]"
  have 1: "lookup (fs (start (sample_fs sample_manifest_text))) (CHAPTERS_FILE sample_env)
           = Some (File sample_manifest_text)"
    by code_simp
  have 2: "safe_load sample_env sample_manifest_text = Some (YMap ?items)"
    by code_simp
  have 3: "map_of ?items (YStr ''chapters'') = Some (YList [YStr ''a.md'', YStr ''b.md''])
           \<or> map_of ?items (YStr ''chapters'') = None \<and> [YStr ''a.md'', YStr ''b.md''] = []"
    by simp
  have 4: "map_of ?items (YStr ''appendices'') = Some (YList [YStr ''c.md''])
           \<or> map_of ?items (YStr ''appendices'') = None \<and> [YStr ''c.md''] = []"
    by simp
  have 5: "lookup (fs (start (sample_fs ''chapters: [a.md, b.md]''))) (CHAPTERS_FILE sample_env)
           = Some (File ''chapters: [a.md, b.md]'')"
    by code_simp
  have 6: "safe_load sample_env ''chapters: [a.md, b.md]'' = Some (YMap ?items')"
    by code_simp
  have 7: "map_of ?items' (YStr ''chapters'') = Some (YList [YStr ''a.md'', YStr ''b.md''])
           \<or> map_of ?items' (YStr ''chapters'') = None \<and> [YStr ''a.md'', YStr ''b.md''] = []"
    by simp
  have 8: "map_of ?items' (YStr ''appendices'') = Some (YList [])
           \<or> map_of ?items' (YStr ''appendices'') = None \<and> ([]::yaml list) = []"
    by simp
  from load_chapters_concatenates [OF 1 2 3 4] load_chapters_concatenates [OF 5 6 7 8]
  show ?thesis by simp
qed




text \<open>
  Claim C10. When the manifest parses to anything but a mapping (the empty document,
  a list, a scalar), the loader raises \<^verbatim>\<open>AttributeError\<close>, which \<^verbatim>\<open>main\<close> does not
  catch: the process ends on it. The empty-list defaults apply when the document is
  a mapping that lacks the keys.
\<close>

theorem non_mapping_manifest_raises:
  assumes "lookup (fs w1) (CHAPTERS_FILE E) = Some (File text)"
    and "safe_load E text = Some config"
  shows "((\<forall>items. config \<noteq> YMap items) \<longrightarrow>
            load_chapters E w1 = (Inl AttributeError, log (Open (CHAPTERS_FILE E)) w1)
            \<and> (\<forall>command w. command \<noteq> Clean
                  \<and> check_pandoc E (print Rule_Line (print Title_Line (print Rule_Line w)))
                      = (Inr True, w1) \<longrightarrow>
                  main E command w = (Inl AttributeError, log (Open (CHAPTERS_FILE E)) w1)
                  \<and> exit_code (fst (main E command w)) = 1))
       \<and> ((\<exists>items. config = YMap items \<and> map_of items (YStr ''chapters'') = None
               \<and> map_of items (YStr ''appendices'') = None) \<longrightarrow>
            load_chapters E w1 = (Inr (YList []), log (Open (CHAPTERS_FILE E)) w1))"
proof (intro conjI impI allI)
  assume n: "\<forall>items. config \<noteq> YMap items"
  with assms show l: "load_chapters E w1 = (Inl AttributeError, log (Open (CHAPTERS_FILE E)) w1)"
    by (cases config) (auto simp: load_chapters_def chapters_of_config_def)
  fix command w
  assume "command \<noteq> Clean
      \<and> check_pandoc E (print Rule_Line (print Title_Line (print Rule_Line w))) = (Inr True, w1)"
  then have m: "main E command w = (Inl AttributeError, log (Open (CHAPTERS_FILE E)) w1)"
    using loader_exception_is_uncaught [of command E w w1, OF _ _ l] by simp
  then show "main E command w = (Inl AttributeError, log (Open (CHAPTERS_FILE E)) w1)" .
  from m show "exit_code (fst (main E command w)) = 1" by simp
next
  assume "\<exists>items. config = YMap items \<and> map_of items (YStr ''chapters'') = None
               \<and> map_of items (YStr ''appendices'') = None"
  with assms show "load_chapters E w1 = (Inr (YList []), log (Open (CHAPTERS_FILE E)) w1)"
    by (auto simp: load_chapters_def chapters_of_config_def)
qed

text \<open>
  An empty manifest and a manifest that is a list raise; a mapping without the two keys
  gives the empty list.
\<close>

theorem non_mapping_manifest_raises_witness:
  "load_chapters sample_env (start (sample_fs [])) =
     (Inl AttributeError, log (Open (CHAPTERS_FILE sample_env)) (start (sample_fs [])))
   \<and> fst (main sample_env Epub (start (sample_fs ''- a.md''))) = Inl AttributeError
   \<and> exit_code (fst (main sample_env Epub (start (sample_fs ''- a.md'')))) = 1
   \<and> load_chapters sample_env (start (sample_fs ''title: Book'')) =
     (Inr (YList []), log (Open (CHAPTERS_FILE sample_env)) (start (sample_fs ''title: Book'')))"
proof -
  let ?E = sample_env
  note r = non_mapping_manifest_raises
  have 1: "lookup (fs (start (sample_fs []))) (CHAPTERS_FILE ?E) = Some (File [])" by code_simp
  have 2: "safe_load ?E [] = Some YNull" by code_simp
  have 3: "\<forall>items. YNull \<noteq> YMap items" by simp
  from r [OF 1 2, THEN conjunct1, THEN mp, OF 3, THEN conjunct1]
  have a: "load_chapters ?E (start (sample_fs [])) =
     (Inl AttributeError, log (Open (CHAPTERS_FILE ?E)) (start (sample_fs [])))" .
  let ?w = "start (sample_fs ''- a.md'')"
  let ?w1 = "snd (check_pandoc ?E (print Rule_Line (print Title_Line (print Rule_Line ?w))))"
  have 4: "lookup (fs ?w1) (CHAPTERS_FILE ?E) = Some (File ''- a.md'')" by code_simp
  have 5: "safe_load ?E ''- a.md'' = Some (YList [YStr ''a.md''])" by code_simp
  have 6: "\<forall>items. YList [YStr ''a.md''] \<noteq> YMap items" by simp
  have 7: "Epub \<noteq> Clean
     \<and> check_pandoc ?E (print Rule_Line (print Title_Line (print Rule_Line ?w))) = (Inr True, ?w1)"
    by code_simp
  from r [OF 4 5, THEN conjunct1, THEN mp, OF 6, THEN conjunct2, THEN spec, THEN spec, THEN mp, OF 7]
  have b: "fst (main ?E Epub ?w) = Inl AttributeError \<and> exit_code (fst (main ?E Epub ?w)) = 1"
    by simp
  let ?u = "start (sample_fs ''title: Book'')"
  let ?items = "[(YStr ''title'', YStr ''Book'')]"
  have 8: "lookup (fs ?u) (CHAPTERS_FILE ?E) = Some (File ''title: Book'')" by code_simp
  have 9: "safe_load ?E ''title: Book'' = Some (YMap ?items)" by code_simp
  have 10: "\<exists>items. YMap ?items = YMap items \<and> map_of items (YStr ''chapters'') = None
               \<and> map_of items (YStr ''appendices'') = None"
    by simp
  note c = r [OF 8 9, THEN conjunct2, THEN mp, OF 10]
  from a b c show ?thesis by blast
qed

subsection \<open>The output directory\<close>



subsection \<open>The format builders\<close>

text \<open>
  Claim C8, as amended. When the subprocess call raises \<^verbatim>\<open>FileNotFoundError\<close>, the
  PDF builder prints its dedicated diagnostic and returns false. The HTML and the EPUB
  builder handle only a non-zero exit status: from them the exception propagates to
  the caller.
\<close>

theorem only_pdf_catches_file_not_found:
  "(subprocess_run E (pdf_cmd E chapters) (Some (DOCS_DIR E)) (print PDF_Building w)
      = (Inl FileNotFoundError, w') \<longrightarrow>
    build_pdf E chapters w = (Inr False, print ERROR_Xelatex_Not_Found w'))
   \<and> (mkdir_exist_ok (html_dir E) (print HTML_Building w) = (Inr (), w1)
      \<and> copy_images E w1 = (Inr (), w2)
      \<and> subprocess_run E (html_cmd E chapters) (Some (DOCS_DIR E)) w2
          = (Inl FileNotFoundError, w') \<longrightarrow>
    build_html E chapters w = (Inl FileNotFoundError, w'))
   \<and> (subprocess_run E (epub_cmd E chapters) (Some (DOCS_DIR E)) (print EPUB_Building w)
      = (Inl FileNotFoundError, w') \<longrightarrow>
    build_epub E chapters w = (Inl FileNotFoundError, w'))"
  by (simp add: build_pdf_def build_html_def build_epub_def action_defs)

text \<open>
  With no converter to start, on the built project: the PDF builder returns false after
  its diagnostic, the other two raise.
\<close>

theorem only_pdf_catches_file_not_found_witness:
  "fst (build_pdf (sample_env\<lparr>program := no_pandoc\<rparr>) [[''book'', ''a.md'']] (start built_fs))
     = Inr False
   \<and> Print ERROR_Xelatex_Not_Found
       \<in> set (trace (snd (build_pdf (sample_env\<lparr>program := no_pandoc\<rparr>) [[''book'', ''a.md'']]
                            (start built_fs))))
   \<and> fst (build_html (sample_env\<lparr>program := no_pandoc\<rparr>) [[''book'', ''a.md'']] (start built_fs))
     = Inl FileNotFoundError
   \<and> fst (build_epub (sample_env\<lparr>program := no_pandoc\<rparr>) [[''book'', ''a.md'']] (start built_fs))
     = Inl FileNotFoundError"
proof -
  let ?E = "sample_env\<lparr>program := no_pandoc\<rparr>"
  let ?w = "start built_fs"
  let ?ps = "[[''book'', ''a.md'']]"
  let ?docs = "Some (DOCS_DIR ?E)"
  let ?p = "snd (subprocess_run ?E (pdf_cmd ?E ?ps) ?docs (print PDF_Building ?w))"
  let ?w1 = "snd (mkdir_exist_ok (html_dir ?E) (print HTML_Building ?w))"
  let ?w2 = "snd (copy_images ?E ?w1)"
  let ?h = "snd (subprocess_run ?E (html_cmd ?E ?ps) ?docs ?w2)"
  let ?e = "snd (subprocess_run ?E (epub_cmd ?E ?ps) ?docs (print EPUB_Building ?w))"
  note r = only_pdf_catches_file_not_found
  have 1: "subprocess_run ?E (pdf_cmd ?E ?ps) ?docs (print PDF_Building ?w)
           = (Inl FileNotFoundError, ?p)"
    by code_simp
  from r [where E = ?E and chapters = ?ps and w = ?w and w' = ?p, THEN conjunct1, THEN mp, OF 1]
  have a: "fst (build_pdf ?E ?ps ?w) = Inr False
     \<and> Print ERROR_Xelatex_Not_Found \<in> set (trace (snd (build_pdf ?E ?ps ?w)))"
    by simp
  have 2: "mkdir_exist_ok (html_dir ?E) (print HTML_Building ?w) = (Inr (), ?w1)
      \<and> copy_images ?E ?w1 = (Inr (), ?w2)
      \<and> subprocess_run ?E (html_cmd ?E ?ps) ?docs ?w2 = (Inl FileNotFoundError, ?h)"
    by code_simp
  from r [where E = ?E and chapters = ?ps and w = ?w and ?w1.0 = ?w1 and ?w2.0 = ?w2 and w' = ?h,
      THEN conjunct2, THEN conjunct1, THEN mp, OF 2]
  have b: "fst (build_html ?E ?ps ?w) = Inl FileNotFoundError" by simp
  have 3: "subprocess_run ?E (epub_cmd ?E ?ps) ?docs (print EPUB_Building ?w)
           = (Inl FileNotFoundError, ?e)"
    by code_simp
  from r [where E = ?E and chapters = ?ps and w = ?w and w' = ?e,
      THEN conjunct2, THEN conjunct2, THEN mp, OF 3]
  have c: "fst (build_epub ?E ?ps ?w) = Inl FileNotFoundError" by simp
  from a b c show ?thesis by blast
qed

text \<open>
  The claim as first stated, for all three builders, fails for EPUB and HTML: the
  subprocess call raises \<^verbatim>\<open>FileNotFoundError\<close> and so does the builder.
\<close>

theorem html_epub_file_not_found_counterexample:
  "fst (subprocess_run (sample_env\<lparr>program := no_pandoc\<rparr>)
          (epub_cmd (sample_env\<lparr>program := no_pandoc\<rparr>) [[''book'', ''a.md'']])
          (Some (DOCS_DIR (sample_env\<lparr>program := no_pandoc\<rparr>)))
          (print EPUB_Building (start built_fs))) = Inl FileNotFoundError
   \<and> fst (build_epub (sample_env\<lparr>program := no_pandoc\<rparr>) [[''book'', ''a.md'']] (start built_fs))
       = Inl FileNotFoundError
   \<and> fst (build_html (sample_env\<lparr>program := no_pandoc\<rparr>) [[''book'', ''a.md'']] (start built_fs))
       = Inl FileNotFoundError"
  by code_simp

text \<open>
  Claim C9. In the HTML builder, once the HTML output directory is there: when the
  \<^verbatim>\<open>images\<close> directory exists under the document root, a prior copy in the HTML output
  directory is removed first and the source tree is then copied, so that afterwards the
  copy holds exactly what the source holds (nothing of the prior copy survives); when it
  does not exist, nothing is removed or copied. Either way this happens before the
  converter is started.
\<close>

theorem html_builder_replaces_images:
  assumes "mkdir_exist_ok (html_dir E) (print HTML_Building w) = (Inr (), w1)"
    and "wf_fs (fs w1)"
    and "\<not> is_file (fs w1) (images_dst E)"
  shows "(lookup (fs w1) (images_src E) = Some Dir \<longrightarrow>
           (\<exists>w2. copy_images E w1 = (Inr (), w2)
              \<and> trace w2 = trace w1
                  @ (if path_exists (fs w1) (images_dst E) then [Rmtree (images_dst E)] else [])
                  @ [Copytree (images_src E) (images_dst E)]
              \<and> (\<forall>r. lookup (fs w2) (images_dst E @ r) = lookup (fs w1) (images_src E @ r))
              \<and> (\<exists>rest. trace (snd (build_html E chapters w)) =
                    trace w2 @ Run (html_cmd E chapters) # rest)))
       \<and> (lookup (fs w1) (images_src E) = None \<longrightarrow>
           copy_images E w1 = (Inr (), w1)
           \<and> (\<exists>rest. trace (snd (build_html E chapters w)) =
                 trace w1 @ Run (html_cmd E chapters) # rest))"
proof (intro conjI impI)
  assume src: "lookup (fs w1) (images_src E) = Some Dir"
  from copy_images_replaces [OF assms(2) mkdir_ok_dir [OF assms(1)] assms(3) src]
  obtain w2 where c: "copy_images E w1 = (Inr (), w2)"
    and t: "trace w2 = trace w1
               @ (if path_exists (fs w1) (images_dst E) then [Rmtree (images_dst E)] else [])
               @ [Copytree (images_src E) (images_dst E)]"
    and l: "\<forall>r. lookup (fs w2) (images_dst E @ r) = lookup (fs w1) (images_src E @ r)"
    by blast
  from build_html_after_copy [OF assms(1) c] c t l
  show "\<exists>w2. copy_images E w1 = (Inr (), w2)
              \<and> trace w2 = trace w1
                  @ (if path_exists (fs w1) (images_dst E) then [Rmtree (images_dst E)] else [])
                  @ [Copytree (images_src E) (images_dst E)]
              \<and> (\<forall>r. lookup (fs w2) (images_dst E @ r) = lookup (fs w1) (images_src E @ r))
              \<and> (\<exists>rest. trace (snd (build_html E chapters w)) =
                    trace w2 @ Run (html_cmd E chapters) # rest)"
    by blast
next
  assume src: "lookup (fs w1) (images_src E) = None"
  then show c: "copy_images E w1 = (Inr (), w1)"
    by (simp add: copy_images_def path_exists_def ret_def)
  from build_html_after_copy [OF assms(1) c]
  show "\<exists>rest. trace (snd (build_html E chapters w)) =
                 trace w1 @ Run (html_cmd E chapters) # rest" .
qed

text \<open>
  On the built project the stale \<^verbatim>\<open>old.png\<close> of the prior copy is gone and
  \<^verbatim>\<open>fig.png\<close> is there; on the project without images the copy step does nothing.
\<close>

theorem html_builder_replaces_images_witness:
  "(\<exists>w2. copy_images sample_env
            (snd (mkdir_exist_ok (html_dir sample_env) (print HTML_Building (start built_fs))))
            = (Inr (), w2)
      \<and> lookup (fs w2) (images_dst sample_env @ [''fig.png'']) = Some (File ''PNG'')
      \<and> lookup (fs w2) (images_dst sample_env @ [''old.png'']) = None)
   \<and> copy_images sample_env
        (snd (mkdir_exist_ok (html_dir sample_env) (print HTML_Building (start bare_fs))))
      = (Inr (), snd (mkdir_exist_ok (html_dir sample_env) (print HTML_Building (start bare_fs))))"
proof -
  let ?E = sample_env
  let ?w = "start built_fs"
  let ?w1 = "snd (mkdir_exist_ok (html_dir ?E) (print HTML_Building ?w))"
  let ?v = "start bare_fs"
  let ?v1 = "snd (mkdir_exist_ok (html_dir ?E) (print HTML_Building ?v))"
  note r = html_builder_replaces_images
  have 1: "mkdir_exist_ok (html_dir ?E) (print HTML_Building ?w) = (Inr (), ?w1)" by code_simp
  have 2: "wf_fs (fs ?w1)" by code_simp
  have 3: "\<not> is_file (fs ?w1) (images_dst ?E)" by code_simp
  have 4: "lookup (fs ?w1) (images_src ?E) = Some Dir" by code_simp
  have 5: "lookup (fs ?w1) (images_src ?E @ [''fig.png'']) = Some (File ''PNG'')" by code_simp
  have 6: "lookup (fs ?w1) (images_src ?E @ [''old.png'']) = None" by code_simp
  from r [OF 1 2 3, of "[]", THEN conjunct1, THEN mp, OF 4] 5 6
  have a: "\<exists>w2. copy_images ?E ?w1 = (Inr (), w2)
      \<and> lookup (fs w2) (images_dst ?E @ [''fig.png'']) = Some (File ''PNG'')
      \<and> lookup (fs w2) (images_dst ?E @ [''old.png'']) = None"
    by auto
  have 7: "mkdir_exist_ok (html_dir ?E) (print HTML_Building ?v) = (Inr (), ?v1)" by code_simp
  have 8: "wf_fs (fs ?v1)" by code_simp
  have 9: "\<not> is_file (fs ?v1) (images_dst ?E)" by code_simp
  have 10: "lookup (fs ?v1) (images_src ?E) = None" by code_simp
  from r [OF 7 8 9, of "[]", THEN conjunct2, THEN mp, OF 10]
  have b: "copy_images ?E ?v1 = (Inr (), ?v1)" by simp
  from a b show ?thesis by blast
qed

end
